theory Spec2Isabelle
  imports Main "HOL-Library.Sublist"
begin

section \<open>Values, records, files\<close>

text \<open>
  The metadata of \<^verbatim>\<open>datahub.Database\<close> is a two-level dict: the outer level maps a
  data table's name to its record, the inner level maps an attribute name to a value.
  The values the code stores are strings (\<^verbatim>\<open>dl_url\<close>, \<^verbatim>\<open>data_file\<close>, \<^verbatim>\<open>meta_data\<close> and
  every pair of the header rows) and one time stamp (\<^verbatim>\<open>updated\<close>).
  Python characters are modelled by \<^typ>\<open>char\<close>, that is code points below 256; the
  only non-ASCII characters the code names (U+00EF, U+00BB, U+00BF) are in that range.
\<close>

datatype val = Str string | Stamp nat

type_synonym meta_record = "string \<rightharpoonup> val"

type_synonym store = "string \<rightharpoonup> meta_record"

text \<open>
  A file under the working directory is a text file, given by the rows that
  \<^verbatim>\<open>csv.reader\<close> yields for it; or a zip archive, given by its entries in listing order
  (name and content); or a pickle of a metadata dict, as \<^verbatim>\<open>save\<close> writes it; or a file
  that was opened for writing and emptied or cut short because the write raised.
\<close>

datatype disk_file =
    Text "string list list"
  | Bundle "(string \<times> disk_file) list"
  | Pickle store
  | Damaged

type_synonym fsys = "string \<rightharpoonup> disk_file"

datatype error =
    KeyError string
  | TypeError string
  | IndexError
  | AttributeError
  | ValueError
  | FileNotFoundError string
  | BadZipFile
  | UnicodeDecodeError
  | URLError
  | OSError

text \<open>
  The state of a \<^verbatim>\<open>Database\<close> object and of the disk it works on:
  \<^verbatim>\<open>self.meta_data\<close> and the files, by path. The pickle \<^verbatim>\<open>RawData/meta_data.p\<close> is one
  of the files, so whatever writes to that path changes the persisted metadata.
  The attribute \<^verbatim>\<open>alerts\<close> is set by the constructor and read nowhere; it is left out.
\<close>

record database =
  meta_data :: store
  files :: fsys

definition pickle_path :: string where
  "pickle_path = ''RawData/meta_data.p''"

text \<open>
  How \<^verbatim>\<open>pickle.dump(self.meta_data, open("RawData/meta_data.p", "wb"))\<close> ends: it returns;
  or \<^verbatim>\<open>open\<close> raises and the file is untouched; or \<^verbatim>\<open>open\<close> has emptied the file and
  \<^verbatim>\<open>dump\<close> raises.
\<close>

datatype save_outcome = Saved | OpenRaises | DumpRaises

text \<open>
  What a call depends on outside the program: the outcome of
  \<^verbatim>\<open>urllib.request.urlretrieve(url, filename)\<close> (an exception, or the content written to
  \<^verbatim>\<open>filename\<close>), the clock read by \<^verbatim>\<open>datetime.datetime.now()\<close>, whether
  \<^verbatim>\<open>file_path.unlink()\<close> raises \<^verbatim>\<open>OSError\<close>, and how writing the pickle ends.
\<close>

record env =
  urlretrieve :: "string \<Rightarrow> string \<Rightarrow> error + disk_file"
  now :: nat
  unlink_fails :: bool
  pickle_dump :: save_outcome

section \<open>Python string and dict operations used by the code\<close>

text \<open>\<^verbatim>\<open>s.rfind(c)\<close>: the highest index at which \<open>c\<close> occurs, or \<open>-1\<close>.\<close>

definition rfind :: "string \<Rightarrow> char \<Rightarrow> int" where
  "rfind s c =
     (if c \<in> set s then int (length s) - 1 - int (length (takeWhile (\<lambda>x. x \<noteq> c) (rev s)))
      else - 1)"

text \<open>\<^verbatim>\<open>s[i:]\<close>: a negative start counts from the end and is clipped at 0.\<close>

definition slice_from :: "string \<Rightarrow> int \<Rightarrow> string" where
  "slice_from s i = (if i < 0 then drop (nat (int (length s) + i)) s else drop (nat i) s)"

text \<open>\<^verbatim>\<open>dict(zip(ks, vs))\<close>: pairs are inserted in order, so a later duplicate key wins.\<close>

definition dict_zip :: "string list \<Rightarrow> string list \<Rightarrow> meta_record" where
  "dict_zip ks vs = fold (\<lambda>(k, v) m. m(k \<mapsto> Str v)) (zip ks vs) Map.empty"

text \<open>\<^verbatim>\<open>d.update(d2)\<close>: every key of \<open>d2\<close> is set in \<open>d\<close>, the other keys of \<open>d\<close> stay.\<close>

definition dict_update :: "meta_record \<Rightarrow> meta_record \<Rightarrow> meta_record" where
  "dict_update d d2 = d ++ d2"

section \<open>datahub.Database\<close>

subsection \<open>\<^verbatim>\<open>_download_data\<close>\<close>

text \<open>Line 48: \<^verbatim>\<open>dl_type = dl_url[dl_url.rfind('.'):]\<close>.\<close>

definition dl_type_of :: "string \<Rightarrow> string" where
  "dl_type_of dl_url = slice_from dl_url (rfind dl_url (CHR ''.''))"

text \<open>\<^verbatim>\<open>zip_ref.extractall('RawData')\<close>: every entry is written below \<^verbatim>\<open>RawData/\<close>
  under its name, in listing order (entry names are taken to be plain relative file
  names, as the code itself takes them when it records \<^verbatim>\<open>'RawData/' + name\<close>).\<close>

definition extractall :: "(string \<times> disk_file) list \<Rightarrow> fsys \<Rightarrow> fsys" where
  "extractall entries fs = fold (\<lambda>(n, c) m. m(''RawData/'' @ n \<mapsto> c)) entries fs"

text \<open>
  Lines 53 to 62, on the dict object \<^verbatim>\<open>self.meta_data[data_name]\<close> (the record \<open>r\<close>) and
  the disk. \<open>f\<close> is the file that \<^verbatim>\<open>urlretrieve\<close> has just written. Each assignment to
  the record takes effect before the next expression is evaluated, so the record that
  comes back with an error holds the assignments made so far.
\<close>

definition unzip_stage ::
  "string \<Rightarrow> disk_file \<Rightarrow> meta_record \<Rightarrow> fsys \<Rightarrow> error option \<times> meta_record \<times> fsys" where
  "unzip_stage dl_type f r fs =
     (if dl_type = ''.zip'' then
        (case f of
           Bundle entries \<Rightarrow>
             (case map fst entries of
                [] \<Rightarrow> (Some IndexError, r, fs)
              | n0 # ns \<Rightarrow>
                  (let r1 = r(''data_file'' \<mapsto> Str (''RawData/'' @ n0)) in
                   case ns of
                     [] \<Rightarrow> (Some IndexError, r1, fs)
                   | n1 # ns' \<Rightarrow>
                       (let r2 = r1(''meta_data'' \<mapsto> Str (''RawData/'' @ n1)) in
                        (None, r2, extractall entries fs))))
         | _ \<Rightarrow> (Some BadZipFile, r, fs))
      else (Some (TypeError ''Download is not a .zip file.''), r, fs))"

text \<open>Line 64: the path that the code opens to read the header rows.\<close>

definition metafile_path :: string where
  "metafile_path = ''RawData/11100134_MetaData.csv''"

text \<open>Lines 71 and 72: the characters removed from every header token,
  \<^verbatim>\<open>U+00EF U+00BB U+00BF\<close> and the double quote.\<close>

definition unusual_chars :: string where
  "unusual_chars = [CHR 0xEF, CHR 0xBB, CHR 0xBF, CHR 0x22]"

definition clean_header :: "string \<Rightarrow> string" where
  "clean_header d = filter (\<lambda>c. c \<notin> set unusual_chars) d"

text \<open>
  Lines 64 to 72 and the argument of \<^verbatim>\<open>update\<close> in line 75: \<^verbatim>\<open>result\<close> is the first
  two rows of the file at \<open>metafile_path\<close>; \<^verbatim>\<open>result[0]\<close> and \<^verbatim>\<open>result[1]\<close> raise
  \<^verbatim>\<open>IndexError\<close> when the file has fewer rows. The value is the dict
  \<^verbatim>\<open>dict(zip(result[0], result[1]))\<close> of cleaned header tokens and values.
  \<open>header_of_file\<close> is what the statements make of the opened file (\<open>None\<close> when
  \<^verbatim>\<open>open\<close> finds no file), \<open>read_header\<close> applies it to the file at the path of line 64.
\<close>

definition header_of_file :: "disk_file option \<Rightarrow> error + meta_record" where
  "header_of_file opened =
     (case opened of
        None \<Rightarrow> Inl (FileNotFoundError metafile_path)
      | Some (Text rows) \<Rightarrow>
          (case take 2 rows of
             [] \<Rightarrow> Inl IndexError
           | [h] \<Rightarrow> Inl IndexError
           | h # v # rest \<Rightarrow> Inr (dict_zip (map clean_header h) v))
      | Some _ \<Rightarrow> Inl UnicodeDecodeError)"

definition read_header :: "fsys \<Rightarrow> error + meta_record" where
  "read_header fs = header_of_file (fs metafile_path)"

text \<open>Lines 64 to 75 on the record: the header dict is merged into it by \<^verbatim>\<open>update\<close>.\<close>

definition merge_stage :: "meta_record \<Rightarrow> fsys \<Rightarrow> error option \<times> meta_record" where
  "merge_stage r fs =
     (case read_header fs of
        Inl err \<Rightarrow> (Some err, r)
      | Inr d \<Rightarrow> (None, dict_update r d))"

text \<open>Lines 47 to 83 on the record \<open>r\<close> of the data table and the disk.\<close>

definition pipeline :: "env \<Rightarrow> meta_record \<Rightarrow> fsys \<Rightarrow> error option \<times> meta_record \<times> fsys" where
  "pipeline e r fs =
     (case r ''dl_url'' of
        None \<Rightarrow> (Some (KeyError ''dl_url''), r, fs)
      | Some (Stamp t) \<Rightarrow> (Some AttributeError, r, fs)
      | Some (Str dl_url) \<Rightarrow>
          (let dl_type = dl_type_of dl_url;
               download = ''RawData/temp'' @ dl_type
           in case urlretrieve e dl_url download of
                Inl err \<Rightarrow> (Some err, r, fs)
              | Inr f \<Rightarrow>
                  (case unzip_stage dl_type f r (fs(download \<mapsto> f)) of
                     (Some err, r2, fs2) \<Rightarrow> (Some err, r2, fs2)
                   | (None, r2, fs2) \<Rightarrow>
                       (case merge_stage r2 fs2 of
                          (Some err, r3) \<Rightarrow> (Some err, r3, fs2)
                        | (None, r3) \<Rightarrow>
                            (None, r3(''updated'' \<mapsto> Stamp (now e)),
                             if unlink_fails e then fs2 else fs2(download := None))))))"

text \<open>
  \<^verbatim>\<open>_download_data(self, data_name)\<close>: the first component is the exception that leaves
  the method, if any; the second is the state the method leaves behind either way.
  The message printed when \<^verbatim>\<open>unlink\<close> fails is not part of the state.
\<close>

definition download_data :: "env \<Rightarrow> string \<Rightarrow> database \<Rightarrow> error option \<times> database" where
  "download_data e data_name db =
     (case meta_data db data_name of
        None \<Rightarrow> (Some (KeyError data_name), db)
      | Some r \<Rightarrow>
          (case pipeline e r (files db) of
             (res, r', fs') \<Rightarrow>
               (res, db\<lparr>meta_data := (meta_data db)(data_name \<mapsto> r'), files := fs'\<rparr>)))"

subsection \<open>\<^verbatim>\<open>save\<close>, \<^verbatim>\<open>add_data\<close>, \<^verbatim>\<open>update_data\<close>\<close>

text \<open>
  \<^verbatim>\<open>save\<close>, lines 97 to 99: the whole of \<^verbatim>\<open>self.meta_data\<close> is written over the pickle.
  \<^verbatim>\<open>open(..., "wb")\<close> empties the file before \<^verbatim>\<open>dump\<close> writes, so a \<^verbatim>\<open>dump\<close> that raises
  leaves a file that is no pickle any more.
\<close>

definition save :: "env \<Rightarrow> database \<Rightarrow> error option \<times> database" where
  "save e db =
     (case pickle_dump e of
        Saved \<Rightarrow> (None, db\<lparr>files := (files db)(pickle_path \<mapsto> Pickle (meta_data db))\<rparr>)
      | OpenRaises \<Rightarrow> (Some OSError, db)
      | DumpRaises \<Rightarrow> (Some OSError, db\<lparr>files := (files db)(pickle_path \<mapsto> Damaged)\<rparr>))"

definition add_data :: "env \<Rightarrow> string \<Rightarrow> string \<Rightarrow> database \<Rightarrow> error option \<times> database" where
  "add_data e data_name dl_url db =
     (case download_data e data_name
             (db\<lparr>meta_data := (meta_data db)(data_name \<mapsto> [''dl_url'' \<mapsto> Str dl_url])\<rparr>) of
        (Some err, db') \<Rightarrow> (Some err, db')
      | (None, db') \<Rightarrow> save e db')"

definition update_data :: "env \<Rightarrow> string \<Rightarrow> database \<Rightarrow> error option \<times> database" where
  "update_data e data_name db =
     (case download_data e data_name db of
        (Some err, db') \<Rightarrow> (Some err, db')
      | (None, db') \<Rightarrow> save e db')"

subsection \<open>\<^verbatim>\<open>load_data\<close>\<close>

text \<open>
  \<^verbatim>\<open>pandas.read_csv(x)\<close>: \<open>parse\<close> is what pandas makes of a file's content (a
  DataFrame, or an exception); a path with no file raises \<^verbatim>\<open>FileNotFoundError\<close>, an
  argument that is no path raises \<^verbatim>\<open>ValueError\<close>.
\<close>

definition read_csv :: "(disk_file \<Rightarrow> error + 'df) \<Rightarrow> fsys \<Rightarrow> val \<Rightarrow> error + 'df" where
  "read_csv parse fs x =
     (case x of
        Stamp t \<Rightarrow> Inl ValueError
      | Str p \<Rightarrow> (case fs p of None \<Rightarrow> Inl (FileNotFoundError p) | Some f \<Rightarrow> parse f))"

definition load_data ::
  "(disk_file \<Rightarrow> error + 'df) \<Rightarrow> string \<Rightarrow> database \<Rightarrow> (error + 'df) \<times> database" where
  "load_data parse data_name db =
     (case meta_data db data_name of
        None \<Rightarrow> (Inl (KeyError data_name), db)
      | Some r \<Rightarrow>
          (case r ''data_file'' of
             None \<Rightarrow> (Inl (KeyError ''data_file''), db)
           | Some x \<Rightarrow> (read_csv parse (files db) x, db)))"

subsection \<open>\<^verbatim>\<open>filter_meta\<close>\<close>

text \<open>
  The two loops of lines 136 to 140: every key \<open>k\<close> of \<^verbatim>\<open>self.meta_data\<close> gets a fresh
  dict, which receives the items \<open>(sk, v)\<close> of the record with \<^verbatim>\<open>sk in attributes\<close>.
  The method assigns to nothing but the fresh dicts.
\<close>

definition filter_meta :: "string list \<Rightarrow> database \<Rightarrow> store \<times> database" where
  "filter_meta attributes db =
     (\<lambda>k. case meta_data db k of
             None \<Rightarrow> None
           | Some r \<Rightarrow>
               Some (\<lambda>sk. case r sk of
                            None \<Rightarrow> None
                          | Some v \<Rightarrow> if sk \<in> set attributes then Some v else None),
      db)"

section \<open>queries\<close>

text \<open>\<^verbatim>\<open>str(n)\<close> for an integer: decimal digits, most significant first, a minus sign
  for a negative number, no padding.\<close>

definition digit_char :: "nat \<Rightarrow> char" where
  "digit_char n = ''0123456789'' ! n"

fun digits :: "nat \<Rightarrow> string" where
  "digits n = (if n < 10 then [digit_char n] else digits (n div 10) @ [digit_char (n mod 10)])"

declare digits.simps [simp del]

text \<open>The number that a decimal digit stands for, to state what \<open>digits\<close> computes.\<close>

definition digit_value :: "char \<Rightarrow> nat" where
  "digit_value c = of_char c - 48"

definition str_int :: "int \<Rightarrow> string" where
  "str_int i = (if i < 0 then CHR ''-'' # digits (nat (- i)) else digits (nat i))"

text \<open>\<^verbatim>\<open>sep.join(xs)\<close>.\<close>

fun join :: "string \<Rightarrow> string list \<Rightarrow> string" where
  "join sep [] = []"
| "join sep [x] = x"
| "join sep (x # y # ys) = x @ sep @ join sep (y # ys)"

subsection \<open>\<^verbatim>\<open>_get\<close> and \<^verbatim>\<open>_post\<close>\<close>

text \<open>
  The exceptions of \<^verbatim>\<open>queries.py\<close>: \<^verbatim>\<open>ServerFailedError(status_code)\<close> and
  \<^verbatim>\<open>EmptyJsonError(url, json=None)\<close> are the module's own; the other two stand for what
  \<^verbatim>\<open>requests\<close> raises when no response arrives and when \<^verbatim>\<open>result.json()\<close> cannot decode the
  body. \<open>'j\<close> is the type of JSON values.
\<close>

datatype 'j query_error =
    ServerFailedError string
  | EmptyJsonError string "'j option"
  | JSONDecodeError
  | RequestException

text \<open>A \<^verbatim>\<open>requests.Response\<close>: \<^verbatim>\<open>status_code\<close>, \<^verbatim>\<open>text\<close> and what \<^verbatim>\<open>json()\<close> yields
  (\<open>None\<close> when it raises).\<close>

record 'j response =
  status_code :: int
  body_text :: string
  json_of :: "'j option"

definition get :: "(string \<Rightarrow> 'j response option) \<Rightarrow> string \<Rightarrow> 'j query_error + 'j" where
  "get requests_get url =
     (case requests_get url of
        None \<Rightarrow> Inl RequestException
      | Some result \<Rightarrow>
          if status_code result \<ge> 500 then Inl (ServerFailedError (str_int (status_code result)))
          else if body_text result = [] then Inl (EmptyJsonError url None)
          else (case json_of result of None \<Rightarrow> Inl JSONDecodeError | Some j \<Rightarrow> Inr j))"

definition post ::
  "(string \<Rightarrow> 'j \<Rightarrow> 'j response option) \<Rightarrow> string \<Rightarrow> 'j \<Rightarrow> 'j query_error + 'j" where
  "post requests_post url json =
     (case requests_post url json of
        None \<Rightarrow> Inl RequestException
      | Some result \<Rightarrow>
          if status_code result \<ge> 500 then Inl (ServerFailedError (str_int (status_code result)))
          else if body_text result = [] then Inl (EmptyJsonError url (Some json))
          else (case json_of result of None \<Rightarrow> Inl JSONDecodeError | Some j \<Rightarrow> Inr j))"

subsection \<open>\<^verbatim>\<open>_convert_date\<close>\<close>

text \<open>The argument is a \<^verbatim>\<open>datetime.date\<close> (year, month, day) or a string; the function
  returns a string for the first and its argument for the second.\<close>

datatype date_arg = Date nat nat nat | PyStr string

fun convert_date :: "date_arg \<Rightarrow> date_arg" where
  "convert_date (Date year month day) =
     PyStr (join ''-'' [str_int (int year), str_int (int month), str_int (int day)])"
| "convert_date (PyStr s) = PyStr s"

section \<open>Example states\<close>

text \<open>The database right after the constructor found no pickle and wrote an empty
  one; a server that answers every URL with the same file, the same with a disk on which
  the pickle cannot be written, and a server that answers no URL; archives.\<close>

definition db_empty :: database where
  "db_empty = \<lparr>meta_data = Map.empty, files = [''RawData/meta_data.p'' \<mapsto> Pickle Map.empty]\<rparr>"

definition env_serving :: "disk_file \<Rightarrow> env" where
  "env_serving f = \<lparr>urlretrieve = (\<lambda>url filename. Inr f), now = 100, unlink_fails = False,
     pickle_dump = Saved\<rparr>"


definition env_unreachable :: env where
  "env_unreachable = \<lparr>urlretrieve = (\<lambda>url filename. Inl URLError), now = 100,
     unlink_fails = False, pickle_dump = Saved\<rparr>"

definition data_csv :: disk_file where
  "data_csv = Text [[''REF_DATE'', ''VALUE''], [''2017-01'', ''130.4'']]"

definition bundle_cpi :: disk_file where
  "bundle_cpi = Bundle [(''data.csv'', data_csv),
     (''meta.csv'', Text [[''Code'', ''Label''], [''001'', ''Consumer Price Index'']])]"

definition bundle_one :: disk_file where
  "bundle_one = Bundle [(''data.csv'', data_csv)]"


text \<open>Databases with one record: fetched, registered with a URL that is no zip file,
  registered but not fetched, and fetched earlier with a header \<^verbatim>\<open>Survey\<close>.\<close>

definition db_cpi :: database where
  "db_cpi = \<lparr>meta_data = [''cpi'' \<mapsto> [''dl_url'' \<mapsto> Str ''http://host/bundle.zip'',
       ''data_file'' \<mapsto> Str ''RawData/data.csv'', ''meta_data'' \<mapsto> Str ''RawData/meta.csv'',
       ''Code'' \<mapsto> Str ''001'', ''updated'' \<mapsto> Stamp 7]],
     files = [''RawData/data.csv'' \<mapsto> data_csv]\<rparr>"

definition frame_of :: "disk_file \<Rightarrow> error + string list list" where
  "frame_of f = (case f of Text rows \<Rightarrow> Inr rows | _ \<Rightarrow> Inl UnicodeDecodeError)"

definition db_url_only :: database where
  "db_url_only = \<lparr>meta_data = [''x'' \<mapsto> [''dl_url'' \<mapsto> Str ''http://host/file.tar'']],
     files = Map.empty\<rparr>"

definition server_of :: "int \<Rightarrow> string \<Rightarrow> string option \<Rightarrow> string \<Rightarrow> string response option" where
  "server_of code body parsed url = Some \<lparr>status_code = code, body_text = body, json_of = parsed\<rparr>"

text \<open>\<^verbatim>\<open>self.meta_data[data_name].get(k)\<close>, with \<open>None\<close> also for an unknown name:
  the accessor used to state what a record holds.\<close>

definition attribute_of :: "database \<Rightarrow> string \<Rightarrow> string \<Rightarrow> val option" where
  "attribute_of db data_name k = (case meta_data db data_name of None \<Rightarrow> None | Some r \<Rightarrow> r k)"

definition db_registered :: database where
  "db_registered = \<lparr>meta_data = [''cpi'' \<mapsto> [''dl_url'' \<mapsto> Str ''http://host/bundle.zip'']],
     files = Map.empty\<rparr>"

definition db_income :: database where
  "db_income = \<lparr>meta_data = [''income'' \<mapsto> [''dl_url'' \<mapsto> Str ''http://host/11100134.zip'',
       ''data_file'' \<mapsto> Str ''RawData/11100134.csv'',
       ''meta_data'' \<mapsto> Str ''RawData/11100134_MetaData.csv'',
       ''Survey'' \<mapsto> Str ''old'', ''updated'' \<mapsto> Stamp 7]],
     files = [''RawData/11100134.csv'' \<mapsto> data_csv,
              ''RawData/11100134_MetaData.csv'' \<mapsto> Text [[''Survey''], [''old'']]]\<rparr>"

text \<open>A record whose data file is not on the disk.\<close>

definition db_lost :: database where
  "db_lost = \<lparr>meta_data = [''cpi'' \<mapsto> [''dl_url'' \<mapsto> Str ''http://host/bundle.zip'',
       ''data_file'' \<mapsto> Str ''RawData/data.csv'']],
     files = Map.empty\<rparr>"

section \<open>The file type of a download\<close>

text \<open>\<open>rfind\<close> is the index of the last occurrence.\<close>

lemma rfind_last:
  assumes "c \<notin> set b"
  shows "rfind (a @ c # b) c = int (length a)"
proof -
  have "takeWhile (\<lambda>x. x \<noteq> c) (rev b @ c # rev a) = rev b"
    using assms by (auto simp: takeWhile_tail)
  then show ?thesis
    by (simp add: rfind_def)
qed

lemma rfind_absent: "c \<notin> set s \<Longrightarrow> rfind s c = - 1"
  by (simp add: rfind_def)

lemma dl_type_of_dot:
  assumes "CHR ''.'' \<notin> set b"
  shows "dl_type_of (a @ CHR ''.'' # b) = CHR ''.'' # b"
  using rfind_last [OF assms, of a] by (simp add: dl_type_of_def slice_from_def)

lemma dl_type_of_nodot:
  assumes "CHR ''.'' \<notin> set u"
  shows "length (dl_type_of u) \<le> 1"
  using assms by (simp add: dl_type_of_def slice_from_def rfind_def)

lemma last_dot_split:
  assumes "CHR ''.'' \<in> set u"
  shows "\<exists>a b. u = a @ CHR ''.'' # b \<and> CHR ''.'' \<notin> set b"
  using assms by (metis split_list_last)

lemma dl_type_of_zip: "dl_type_of u = ''.zip'' \<longleftrightarrow> suffix ''.zip'' u"
proof
  assume z: "dl_type_of u = ''.zip''"
  show "suffix ''.zip'' u"
  proof (cases "CHR ''.'' \<in> set u")
    case True
    then obtain a b where ab: "u = a @ CHR ''.'' # b" "CHR ''.'' \<notin> set b"
      using last_dot_split by blast
    with z have "b = ''zip''" by (simp add: dl_type_of_dot)
    with ab show ?thesis by (simp add: suffix_def)
  next
    case False
    then have "length (dl_type_of u) \<le> 1" by (rule dl_type_of_nodot)
    with z show ?thesis by simp
  qed
next
  assume "suffix ''.zip'' u"
  then obtain a where "u = a @ CHR ''.'' # ''zip''" by (auto simp: suffix_def)
  then show "dl_type_of u = ''.zip''" by (simp add: dl_type_of_dot)
qed

section \<open>The stages of a download\<close>








section \<open>Downloads, step by step\<close>


lemma unzip_stage_short:
  assumes "length entries < 2"
  shows "unzip_stage ''.zip'' (Bundle entries) r fs =
          (Some IndexError,
            (case entries of [] \<Rightarrow> r | (n, c) # es \<Rightarrow> r(''data_file'' \<mapsto> Str (''RawData/'' @ n))),
            fs)"
proof (cases entries)
  case Nil
  then show ?thesis by (simp add: unzip_stage_def)
next
  case (Cons x es)
  with assms have es: "es = []" by simp
  obtain n c where x: "x = (n, c)" by (cases x)
  show ?thesis
    unfolding Cons es x by (simp add: unzip_stage_def)
qed

lemma pipeline_zip:
  assumes "r ''dl_url'' = Some (Str dl_url)" and "suffix ''.zip'' dl_url"
    and "urlretrieve e dl_url ''RawData/temp.zip'' = Inr f"
  shows "pipeline e r fs =
           (case unzip_stage ''.zip'' f r (fs(''RawData/temp.zip'' \<mapsto> f)) of
              (Some err, r2, fs2) \<Rightarrow> (Some err, r2, fs2)
            | (None, r2, fs2) \<Rightarrow>
                (case merge_stage r2 fs2 of
                   (Some err, r3) \<Rightarrow> (Some err, r3, fs2)
                 | (None, r3) \<Rightarrow>
                     (None, r3(''updated'' \<mapsto> Stamp (now e)),
                      if unlink_fails e then fs2 else fs2(''RawData/temp.zip'' := None))))"
proof -
  from assms(2) have t: "dl_type_of dl_url = ''.zip''" by (simp add: dl_type_of_zip)
  have p: "''RawData/temp'' @ ''.zip'' = ''RawData/temp.zip''" by simp
  show ?thesis
    unfolding pipeline_def Let_def assms(1) t p option.case val.case assms(3) sum.case ..
qed

lemma pipeline_short_archive:
  assumes u: "r ''dl_url'' = Some (Str dl_url)" and z: "suffix ''.zip'' dl_url"
    and f: "urlretrieve e dl_url ''RawData/temp.zip'' = Inr (Bundle entries)"
    and l: "length entries < 2"
  shows "pipeline e r fs =
           (Some IndexError,
            (case entries of [] \<Rightarrow> r | (n, c) # es \<Rightarrow> r(''data_file'' \<mapsto> Str (''RawData/'' @ n))),
            fs(''RawData/temp.zip'' \<mapsto> Bundle entries))"
  unfolding pipeline_zip [of r dl_url e "Bundle entries" fs, OF u z f] unzip_stage_short [OF l]
  by simp

lemma download_data_known:
  assumes "meta_data db data_name = Some r"
  shows "download_data e data_name db =
           (case pipeline e r (files db) of
              (res, r', fs') \<Rightarrow>
                (res, db\<lparr>meta_data := (meta_data db)(data_name \<mapsto> r'), files := fs'\<rparr>))"
  using assms by (simp add: download_data_def)

lemma add_data_pipeline:
  "add_data e data_name dl_url db =
     (case pipeline e [''dl_url'' \<mapsto> Str dl_url] (files db) of
        (Some err, r', fs') \<Rightarrow>
          (Some err, db\<lparr>meta_data := (meta_data db)(data_name \<mapsto> r'), files := fs'\<rparr>)
      | (None, r', fs') \<Rightarrow>
          save e (db\<lparr>meta_data := (meta_data db)(data_name \<mapsto> r'), files := fs'\<rparr>))"
proof -
  let ?db1 = "db\<lparr>meta_data := (meta_data db)(data_name \<mapsto> [''dl_url'' \<mapsto> Str dl_url])\<rparr>"
  have k: "meta_data ?db1 data_name = Some [''dl_url'' \<mapsto> Str dl_url]" by simp
  obtain res r' fs' where p: "pipeline e [''dl_url'' \<mapsto> Str dl_url] (files db) = (res, r', fs')"
    by (metis prod_cases3)
  show ?thesis
    by (cases res) (simp_all add: add_data_def download_data_known [OF k] p)
qed

section \<open>What a download changes\<close>






lemma update_data_download:
  "update_data e data_name db =
     (case download_data e data_name db of
        (res, db0) \<Rightarrow> if res = None then save e db0 else (res, db0))"
  by (auto simp: update_data_def split: prod.splits option.splits)


lemma unzip_stage_two:
  assumes "map fst entries = n0 # n1 # ns"
  shows "unzip_stage ''.zip'' (Bundle entries) r fs =
           (None, r(''data_file'' \<mapsto> Str (''RawData/'' @ n0), ''meta_data'' \<mapsto> Str (''RawData/'' @ n1)),
            extractall entries fs)"
  using assms by (simp add: unzip_stage_def)

lemma pipeline_two:
  assumes u: "r ''dl_url'' = Some (Str dl_url)" and z: "suffix ''.zip'' dl_url"
    and f: "urlretrieve e dl_url ''RawData/temp.zip'' = Inr (Bundle entries)"
    and ns: "map fst entries = n0 # n1 # ns"
  shows "pipeline e r fs =
     (case read_header (extractall entries (fs(''RawData/temp.zip'' \<mapsto> Bundle entries))) of
        Inl err \<Rightarrow>
          (Some err,
           r(''data_file'' \<mapsto> Str (''RawData/'' @ n0), ''meta_data'' \<mapsto> Str (''RawData/'' @ n1)),
           extractall entries (fs(''RawData/temp.zip'' \<mapsto> Bundle entries)))
      | Inr d \<Rightarrow>
          (None,
           (r(''data_file'' \<mapsto> Str (''RawData/'' @ n0), ''meta_data'' \<mapsto> Str (''RawData/'' @ n1)) ++ d)
             (''updated'' \<mapsto> Stamp (now e)),
           if unlink_fails e then extractall entries (fs(''RawData/temp.zip'' \<mapsto> Bundle entries))
           else (extractall entries (fs(''RawData/temp.zip'' \<mapsto> Bundle entries)))
                  (''RawData/temp.zip'' := None)))"
  unfolding pipeline_zip [of r dl_url e "Bundle entries" fs, OF u z f] unzip_stage_two [OF ns]
  by (simp add: merge_stage_def dict_update_def split: sum.splits)


















section \<open>Example runs\<close>







text \<open>Downloads that find a single entry in the archive, and one that finds no server.\<close>

lemma one_entry_download:
  assumes k: "meta_data db data_name = Some r" and u: "r ''dl_url'' = Some (Str dl_url)"
    and z: "suffix ''.zip'' dl_url"
  shows "download_data (env_serving bundle_one) data_name db =
     (Some IndexError,
      db\<lparr>meta_data := (meta_data db)(data_name \<mapsto> r(''data_file'' \<mapsto> Str ''RawData/data.csv'')),
         files := (files db)(''RawData/temp.zip'' \<mapsto> bundle_one)\<rparr>)"
proof -
  have f: "urlretrieve (env_serving bundle_one) dl_url ''RawData/temp.zip''
             = Inr (Bundle [(''data.csv'', data_csv)])"
    by (simp add: env_serving_def bundle_one_def)
  have l: "length [(''data.csv'', data_csv)] < 2"
    by simp
  note p = pipeline_short_archive [of r dl_url "env_serving bundle_one"
      "[(''data.csv'', data_csv)]" "files db", OF u z f l]
  show ?thesis
    unfolding download_data_known [OF k] p by (simp add: bundle_one_def)
qed




lemma income_one_entry:
  "update_data (env_serving bundle_one) ''income'' db_income =
     (Some IndexError,
      db_income\<lparr>meta_data := (meta_data db_income)(''income'' \<mapsto>
          [''dl_url'' \<mapsto> Str ''http://host/11100134.zip'',
           ''data_file'' \<mapsto> Str ''RawData/11100134.csv'',
           ''meta_data'' \<mapsto> Str ''RawData/11100134_MetaData.csv'',
           ''Survey'' \<mapsto> Str ''old'', ''updated'' \<mapsto> Stamp 7,
           ''data_file'' \<mapsto> Str ''RawData/data.csv'']),
        files := (files db_income)(''RawData/temp.zip'' \<mapsto> bundle_one)\<rparr>)"
proof -
  let ?r = "[''dl_url'' \<mapsto> Str ''http://host/11100134.zip'',
                ''data_file'' \<mapsto> Str ''RawData/11100134.csv'',
                ''meta_data'' \<mapsto> Str ''RawData/11100134_MetaData.csv'',
                ''Survey'' \<mapsto> Str ''old'', ''updated'' \<mapsto> Stamp 7]"
  have k: "meta_data db_income ''income'' = Some ?r"
    by (simp add: db_income_def)
  have u: "?r ''dl_url'' = Some (Str ''http://host/11100134.zip'')"
    by simp
  have z: "suffix ''.zip'' ''http://host/11100134.zip''"
    by (simp add: suffix_def)
  show ?thesis
    unfolding update_data_download
      one_entry_download [of db_income "''income''" ?r "''http://host/11100134.zip''", OF k u z]
    by simp
qed

lemma one_entry_registration:
  "add_data (env_serving bundle_one) ''cpi'' ''http://host/bundle.zip'' db_empty =
     (Some IndexError,
      db_empty\<lparr>meta_data := (meta_data db_empty)(''cpi'' \<mapsto>
          [''dl_url'' \<mapsto> Str ''http://host/bundle.zip'',
           ''data_file'' \<mapsto> Str ''RawData/data.csv'']),
        files := (files db_empty)(''RawData/temp.zip'' \<mapsto> bundle_one)\<rparr>)"
proof -
  let ?r = "[''dl_url'' \<mapsto> Str ''http://host/bundle.zip'']"
  have u: "?r ''dl_url'' = Some (Str ''http://host/bundle.zip'')"
    by simp
  have z: "suffix ''.zip'' ''http://host/bundle.zip''"
    by (simp add: suffix_def)
  have f: "urlretrieve (env_serving bundle_one) ''http://host/bundle.zip'' ''RawData/temp.zip''
             = Inr (Bundle [(''data.csv'', data_csv)])"
    by (simp add: env_serving_def bundle_one_def)
  have l: "length [(''data.csv'', data_csv)] < 2"
    by simp
  note p = pipeline_short_archive [of ?r "''http://host/bundle.zip''" "env_serving bundle_one"
      "[(''data.csv'', data_csv)]" "files db_empty", OF u z f l]
  show ?thesis
    unfolding add_data_pipeline p by (simp add: bundle_one_def)
qed

text \<open>Registering a table whose archive holds \<^verbatim>\<open>data.csv\<close> and \<^verbatim>\<open>meta.csv\<close>.\<close>

lemma cpi_header_missing:
  "read_header (extractall [(''data.csv'', data_csv),
       (''meta.csv'', Text [[''Code'', ''Label''], [''001'', ''Consumer Price Index'']])]
       ((files db_empty)(''RawData/temp.zip'' \<mapsto> b)))
     = Inl (FileNotFoundError ''RawData/11100134_MetaData.csv'')"
  by (simp add: read_header_def header_of_file_def extractall_def metafile_path_def db_empty_def)

lemma cpi_header_other:
  "read_header (extractall [(''data.csv'', data_csv),
       (''meta.csv'', Text [[''Code'', ''Label''], [''001'', ''Consumer Price Index'']])]
       ((files db_income)(''RawData/temp.zip'' \<mapsto> b)))
     = Inr [''Survey'' \<mapsto> Str ''old'']"
  by (simp add: read_header_def header_of_file_def extractall_def metafile_path_def db_income_def
      dict_zip_def clean_header_def unusual_chars_def)

lemma cpi_pipeline:
  "pipeline (env_serving bundle_cpi) [''dl_url'' \<mapsto> Str ''http://host/bundle.zip''] fs =
     (case read_header (extractall [(''data.csv'', data_csv),
             (''meta.csv'', Text [[''Code'', ''Label''], [''001'', ''Consumer Price Index'']])]
             (fs(''RawData/temp.zip'' \<mapsto> bundle_cpi))) of
        Inl err \<Rightarrow>
          (Some err,
           [''dl_url'' \<mapsto> Str ''http://host/bundle.zip'',
            ''data_file'' \<mapsto> Str ''RawData/data.csv'', ''meta_data'' \<mapsto> Str ''RawData/meta.csv''],
           extractall [(''data.csv'', data_csv),
             (''meta.csv'', Text [[''Code'', ''Label''], [''001'', ''Consumer Price Index'']])]
             (fs(''RawData/temp.zip'' \<mapsto> bundle_cpi)))
      | Inr d \<Rightarrow>
          (None,
           ([''dl_url'' \<mapsto> Str ''http://host/bundle.zip'',
            ''data_file'' \<mapsto> Str ''RawData/data.csv'', ''meta_data'' \<mapsto> Str ''RawData/meta.csv'']
             ++ d)(''updated'' \<mapsto> Stamp 100),
           (extractall [(''data.csv'', data_csv),
             (''meta.csv'', Text [[''Code'', ''Label''], [''001'', ''Consumer Price Index'']])]
             (fs(''RawData/temp.zip'' \<mapsto> bundle_cpi)))(''RawData/temp.zip'' := None)))"
proof -
  let ?r = "[''dl_url'' \<mapsto> Str ''http://host/bundle.zip'']"
  let ?es = "[(''data.csv'', data_csv),
             (''meta.csv'', Text [[''Code'', ''Label''], [''001'', ''Consumer Price Index'']])]"
  have u: "?r ''dl_url'' = Some (Str ''http://host/bundle.zip'')"
    by simp
  have z: "suffix ''.zip'' ''http://host/bundle.zip''"
    by (simp add: suffix_def)
  have f: "urlretrieve (env_serving bundle_cpi) ''http://host/bundle.zip'' ''RawData/temp.zip''
             = Inr (Bundle ?es)"
    by (simp add: env_serving_def bundle_cpi_def)
  have ns: "map fst ?es = ''data.csv'' # ''meta.csv'' # []"
    by simp
  have b: "Bundle ?es = bundle_cpi"
    by (simp add: bundle_cpi_def)
  have n: "now (env_serving bundle_cpi) = 100" "unlink_fails (env_serving bundle_cpi) = False"
    by (simp_all add: env_serving_def)
  have s: "''RawData/'' @ ''data.csv'' = ''RawData/data.csv''"
    "''RawData/'' @ ''meta.csv'' = ''RawData/meta.csv''"
    by simp_all
  note p = pipeline_two [of ?r "''http://host/bundle.zip''" "env_serving bundle_cpi" ?es
      "''data.csv''" "''meta.csv''" "[]" fs, OF u z f ns]
  show ?thesis
    unfolding p b n s if_False ..
qed

section \<open>Refreshing an unknown data table\<close>

text \<open>
  Claim C5. For every name that is not a key of the metadata, \<^verbatim>\<open>update_data\<close> on that
  name fails with the \<^verbatim>\<open>KeyError\<close> of the name (line 47, the first statement of
  \<^verbatim>\<open>_download_data\<close>): this is the error the specification calls UnknownDataset. The
  metadata, the pickle and the files are left as they were.
\<close>

theorem update_data_unknown:
  "meta_data db data_name = None \<Longrightarrow>
     update_data e data_name db = (Some (KeyError data_name), db)"
  by (simp add: update_data_def download_data_def)

theorem update_data_unknown_witness:
  "meta_data db_empty ''never-registered'' = None \<and>
   update_data (env_serving bundle_cpi) ''never-registered'' db_empty
     = (Some (KeyError ''never-registered''), db_empty)"
proof -
  have h: "meta_data db_empty ''never-registered'' = None"
    by (simp add: db_empty_def)
  from h update_data_unknown [OF h] show ?thesis by simp
qed

section \<open>Projection of the metadata\<close>

text \<open>
  Claim C7. For every database and every list of attribute names, \<^verbatim>\<open>filter_meta\<close> leaves
  the database as it was; the mapping it returns has the data table names of the
  metadata as its keys; the keys of every returned record are among the attribute
  names; and a returned record agrees with the stored one on every requested attribute,
  so that a requested attribute the stored record does not have is absent from the
  returned one. The function has no error result.
\<close>

theorem filter_meta_projection:
  "filter_meta attributes db = (meta, db') \<Longrightarrow>
     db' = db \<and>
     dom meta = dom (meta_data db) \<and>
     (\<forall>k r. meta k = Some r \<longrightarrow> dom r \<subseteq> set attributes) \<and>
     (\<forall>k r0. meta_data db k = Some r0 \<longrightarrow>
        (\<exists>r. meta k = Some r \<and> (\<forall>a. r a = (if a \<in> set attributes then r0 a else None))))"
  by (auto simp: filter_meta_def dom_def split: option.splits if_splits)

theorem filter_meta_projection_witness:
  "snd (filter_meta [''Code'', ''Label''] db_cpi) = db_cpi \<and>
   dom (fst (filter_meta [''Code'', ''Label''] db_cpi)) = dom (meta_data db_cpi) \<and>
   fst (filter_meta [''Code'', ''Label''] db_cpi) ''cpi'' = Some [''Code'' \<mapsto> Str ''001'']"
proof -
  let ?A = "[''Code'', ''Label'']"
  have h: "filter_meta ?A db_cpi = (fst (filter_meta ?A db_cpi), snd (filter_meta ?A db_cpi))"
    by simp
  have r0: "meta_data db_cpi ''cpi'' = Some [''dl_url'' \<mapsto> Str ''http://host/bundle.zip'',
       ''data_file'' \<mapsto> Str ''RawData/data.csv'', ''meta_data'' \<mapsto> Str ''RawData/meta.csv'',
       ''Code'' \<mapsto> Str ''001'', ''updated'' \<mapsto> Stamp 7]"
    by (simp add: db_cpi_def)
  note t = filter_meta_projection [OF h]
  from t have 1: "snd (filter_meta ?A db_cpi) = db_cpi" by blast
  from t have 2: "dom (fst (filter_meta ?A db_cpi)) = dom (meta_data db_cpi)" by blast
  from t r0 obtain r where r: "fst (filter_meta ?A db_cpi) ''cpi'' = Some r"
    and ra: "\<forall>a. r a = (if a \<in> set ?A then [''dl_url'' \<mapsto> Str ''http://host/bundle.zip'',
       ''data_file'' \<mapsto> Str ''RawData/data.csv'', ''meta_data'' \<mapsto> Str ''RawData/meta.csv'',
       ''Code'' \<mapsto> Str ''001'', ''updated'' \<mapsto> Stamp 7] a else None)"
    by blast
  have "r = [''Code'' \<mapsto> Str ''001'']"
    by (rule ext) (simp add: ra)
  with 1 2 r show ?thesis by simp
qed

section \<open>Loading a data table\<close>

text \<open>
  Claim C6, as amended. The claim says that \<^verbatim>\<open>load_data\<close> returns the loaded contents
  whenever the record has a data file path. \<^verbatim>\<open>load_data\<close> fails with the \<^verbatim>\<open>KeyError\<close> of
  the name when the name is not a key of the metadata (the specification's
  UnknownDataset), and with the \<^verbatim>\<open>KeyError\<close> of \<^verbatim>\<open>data_file\<close> when the record exists and has
  no data file path (the specification's DataNotFetched). In every other case it hands
  the recorded value to \<^verbatim>\<open>pandas.read_csv\<close> and its outcome is that call's: what pandas
  makes of the file's content when a file is at the recorded path,
  \<^verbatim>\<open>FileNotFoundError\<close> when no file is there, \<^verbatim>\<open>ValueError\<close> when the value is no path.
  The database is the same afterwards.
\<close>

theorem load_data_cases:
  "(meta_data db data_name = None \<longrightarrow>
      load_data parse data_name db = (Inl (KeyError data_name), db)) \<and>
   (\<forall>r. meta_data db data_name = Some r \<and> r ''data_file'' = None \<longrightarrow>
      load_data parse data_name db = (Inl (KeyError ''data_file''), db)) \<and>
   (\<forall>r x. meta_data db data_name = Some r \<and> r ''data_file'' = Some x \<longrightarrow>
      load_data parse data_name db = (read_csv parse (files db) x, db)) \<and>
   (\<forall>r p f. meta_data db data_name = Some r \<and> r ''data_file'' = Some (Str p) \<and>
      files db p = Some f \<longrightarrow>
      load_data parse data_name db = (parse f, db)) \<and>
   (\<forall>r p. meta_data db data_name = Some r \<and> r ''data_file'' = Some (Str p) \<and>
      files db p = None \<longrightarrow>
      load_data parse data_name db = (Inl (FileNotFoundError p), db)) \<and>
   (\<forall>r t. meta_data db data_name = Some r \<and> r ''data_file'' = Some (Stamp t) \<longrightarrow>
      load_data parse data_name db = (Inl ValueError, db))"
  by (simp add: load_data_def read_csv_def)

theorem load_data_cases_witness:
  "load_data frame_of ''cpi'' db_empty = (Inl (KeyError ''cpi''), db_empty) \<and>
   load_data frame_of ''x'' db_url_only = (Inl (KeyError ''data_file''), db_url_only) \<and>
   load_data frame_of ''cpi'' db_cpi
     = (Inr [[''REF_DATE'', ''VALUE''], [''2017-01'', ''130.4'']], db_cpi) \<and>
   load_data frame_of ''cpi'' db_lost = (Inl (FileNotFoundError ''RawData/data.csv''), db_lost)"
proof -
  have a: "meta_data db_empty ''cpi'' = None"
    by (simp add: db_empty_def)
  have b: "meta_data db_url_only ''x'' = Some [''dl_url'' \<mapsto> Str ''http://host/file.tar'']
           \<and> [''dl_url'' \<mapsto> Str ''http://host/file.tar''] ''data_file'' = None"
    by (simp add: db_url_only_def)
  have c: "meta_data db_cpi ''cpi'' = Some [''dl_url'' \<mapsto> Str ''http://host/bundle.zip'',
       ''data_file'' \<mapsto> Str ''RawData/data.csv'', ''meta_data'' \<mapsto> Str ''RawData/meta.csv'',
       ''Code'' \<mapsto> Str ''001'', ''updated'' \<mapsto> Stamp 7] \<and>
     [''dl_url'' \<mapsto> Str ''http://host/bundle.zip'',
       ''data_file'' \<mapsto> Str ''RawData/data.csv'', ''meta_data'' \<mapsto> Str ''RawData/meta.csv'',
       ''Code'' \<mapsto> Str ''001'', ''updated'' \<mapsto> Stamp 7] ''data_file'' = Some (Str ''RawData/data.csv'') \<and>
     files db_cpi ''RawData/data.csv'' = Some data_csv"
    by (simp add: db_cpi_def)
  have d: "frame_of data_csv = Inr [[''REF_DATE'', ''VALUE''], [''2017-01'', ''130.4'']]"
    by (simp add: frame_of_def data_csv_def)
  have e: "meta_data db_lost ''cpi'' = Some [''dl_url'' \<mapsto> Str ''http://host/bundle.zip'',
       ''data_file'' \<mapsto> Str ''RawData/data.csv''] \<and>
     [''dl_url'' \<mapsto> Str ''http://host/bundle.zip'',
       ''data_file'' \<mapsto> Str ''RawData/data.csv''] ''data_file'' = Some (Str ''RawData/data.csv'') \<and>
     files db_lost ''RawData/data.csv'' = None"
    by (simp add: db_lost_def)
  note t1 = load_data_cases [of db_empty "''cpi''" frame_of, THEN conjunct1, rule_format, OF a]
  note t2 = load_data_cases [of db_url_only "''x''" frame_of, THEN conjunct2, THEN conjunct1,
      rule_format, OF b]
  note t3 = load_data_cases [of db_cpi "''cpi''" frame_of, THEN conjunct2, THEN conjunct2,
      THEN conjunct2, THEN conjunct1, rule_format, OF c]
  note t4 = load_data_cases [of db_lost "''cpi''" frame_of, THEN conjunct2, THEN conjunct2,
      THEN conjunct2, THEN conjunct2, THEN conjunct1, rule_format, OF e]
  from t1 t2 t3 [unfolded d] t4 show ?thesis by (intro conjI)
qed

text \<open>
  The claim as stated fails on the database that a registration with a one-entry archive
  leaves: the record has a data file path, nothing was extracted, and loading raises
  \<^verbatim>\<open>FileNotFoundError\<close>.
\<close>

theorem load_data_missing_file_counterexample:
  "attribute_of (snd (add_data (env_serving bundle_one) ''cpi'' ''http://host/bundle.zip'' db_empty))
     ''cpi'' ''data_file'' = Some (Str ''RawData/data.csv'') \<and>
   fst (load_data frame_of ''cpi''
          (snd (add_data (env_serving bundle_one) ''cpi'' ''http://host/bundle.zip'' db_empty)))
     = Inl (FileNotFoundError ''RawData/data.csv'')"
  unfolding one_entry_registration
  by (simp add: attribute_of_def load_data_def read_csv_def db_empty_def)

section \<open>The transport functions\<close>

lemma get_outcomes:
  assumes "requests_get url = Some result"
  shows "((\<exists>s. get requests_get url = Inl (ServerFailedError s)) \<longleftrightarrow> status_code result \<ge> 500) \<and>
      (status_code result \<ge> 500 \<longrightarrow>
         get requests_get url = Inl (ServerFailedError (str_int (status_code result)))) \<and>
      ((\<exists>u b. get requests_get url = Inl (EmptyJsonError u b)) \<longleftrightarrow>
         status_code result < 500 \<and> body_text result = []) \<and>
      (status_code result < 500 \<and> body_text result = [] \<longrightarrow>
         get requests_get url = Inl (EmptyJsonError url None)) \<and>
      (\<forall>j. status_code result < 500 \<and> body_text result \<noteq> [] \<and> json_of result = Some j \<longrightarrow>
         get requests_get url = Inr j) \<and>
      (status_code result < 500 \<and> body_text result \<noteq> [] \<longrightarrow>
         get requests_get url =
           (case json_of result of None \<Rightarrow> Inl JSONDecodeError | Some j \<Rightarrow> Inr j))"
  using assms by (auto simp: get_def split: option.splits)

lemma post_outcomes:
  assumes "requests_post url json = Some result"
  shows "((\<exists>s. post requests_post url json = Inl (ServerFailedError s)) \<longleftrightarrow> status_code result \<ge> 500) \<and>
      (status_code result \<ge> 500 \<longrightarrow>
         post requests_post url json = Inl (ServerFailedError (str_int (status_code result)))) \<and>
      ((\<exists>u b. post requests_post url json = Inl (EmptyJsonError u b)) \<longleftrightarrow>
         status_code result < 500 \<and> body_text result = []) \<and>
      (status_code result < 500 \<and> body_text result = [] \<longrightarrow>
         post requests_post url json = Inl (EmptyJsonError url (Some json))) \<and>
      (\<forall>j. status_code result < 500 \<and> body_text result \<noteq> [] \<and> json_of result = Some j \<longrightarrow>
         post requests_post url json = Inr j) \<and>
      (status_code result < 500 \<and> body_text result \<noteq> [] \<longrightarrow>
         post requests_post url json =
           (case json_of result of None \<Rightarrow> Inl JSONDecodeError | Some j \<Rightarrow> Inr j))"
  using assms by (auto simp: post_def split: option.splits)

text \<open>
  Claim C8, as amended. The claim says that in every case other than the two errors the
  parsed value is returned. For every response that \<^verbatim>\<open>requests.get\<close> or
  \<^verbatim>\<open>requests.post\<close> hands to \<^verbatim>\<open>_get\<close> or \<^verbatim>\<open>_post\<close>: \<^verbatim>\<open>ServerFailedError\<close> is raised
  exactly when the status code is at least 500, and it carries the status code as a
  string; \<^verbatim>\<open>EmptyJsonError\<close> is raised exactly when the status code is below 500 and the
  body is the empty string, and it carries the URL (and the post body for \<^verbatim>\<open>_post\<close>); in
  every other case the outcome is that of \<^verbatim>\<open>result.json()\<close>: the parsed value when the
  body is JSON, the decoder's exception when it is not.
\<close>


theorem transport_outcomes:
  "(requests_get url = Some result \<longrightarrow>
      ((\<exists>s. get requests_get url = Inl (ServerFailedError s)) \<longleftrightarrow> status_code result \<ge> 500) \<and>
      (status_code result \<ge> 500 \<longrightarrow>
         get requests_get url = Inl (ServerFailedError (str_int (status_code result)))) \<and>
      ((\<exists>u b. get requests_get url = Inl (EmptyJsonError u b)) \<longleftrightarrow>
         status_code result < 500 \<and> body_text result = []) \<and>
      (status_code result < 500 \<and> body_text result = [] \<longrightarrow>
         get requests_get url = Inl (EmptyJsonError url None)) \<and>
      (\<forall>j. status_code result < 500 \<and> body_text result \<noteq> [] \<and> json_of result = Some j \<longrightarrow>
         get requests_get url = Inr j) \<and>
      (status_code result < 500 \<and> body_text result \<noteq> [] \<longrightarrow>
         get requests_get url =
           (case json_of result of None \<Rightarrow> Inl JSONDecodeError | Some j \<Rightarrow> Inr j))) \<and>
   (requests_post url json = Some result' \<longrightarrow>
      ((\<exists>s. post requests_post url json = Inl (ServerFailedError s)) \<longleftrightarrow> status_code result' \<ge> 500) \<and>
      (status_code result' \<ge> 500 \<longrightarrow>
         post requests_post url json = Inl (ServerFailedError (str_int (status_code result')))) \<and>
      ((\<exists>u b. post requests_post url json = Inl (EmptyJsonError u b)) \<longleftrightarrow>
         status_code result' < 500 \<and> body_text result' = []) \<and>
      (status_code result' < 500 \<and> body_text result' = [] \<longrightarrow>
         post requests_post url json = Inl (EmptyJsonError url (Some json))) \<and>
      (\<forall>j. status_code result' < 500 \<and> body_text result' \<noteq> [] \<and> json_of result' = Some j \<longrightarrow>
         post requests_post url json = Inr j) \<and>
      (status_code result' < 500 \<and> body_text result' \<noteq> [] \<longrightarrow>
         post requests_post url json =
           (case json_of result' of None \<Rightarrow> Inl JSONDecodeError | Some j \<Rightarrow> Inr j)))"
  by (rule conjI; rule impI; (erule get_outcomes | erule post_outcomes))

theorem transport_outcomes_witness:
  "get (server_of 503 ''busy'' None) ''http://host/a'' = Inl (ServerFailedError ''503'') \<and>
   get (server_of 200 [] None) ''http://host/a'' = Inl (EmptyJsonError ''http://host/a'' None) \<and>
   get (server_of 200 ''[1]'' (Some ''one'')) ''http://host/a'' = Inr ''one'' \<and>
   post (\<lambda>u b. server_of 500 [] None u) ''http://host/a'' ''body'' = Inl (ServerFailedError ''500'') \<and>
   post (\<lambda>u b. server_of 404 [] None u) ''http://host/a'' ''body''
     = Inl (EmptyJsonError ''http://host/a'' (Some ''body'')) \<and>
   post (\<lambda>u b. server_of 200 ''[1]'' (Some ''one'') u) ''http://host/a'' ''body'' = Inr ''one''"
proof -
  let ?u = "''http://host/a''"
  let ?r1 = "\<lparr>status_code = 503, body_text = ''busy'', json_of = None :: string option\<rparr>"
  let ?r2 = "\<lparr>status_code = 200, body_text = [], json_of = None :: string option\<rparr>"
  let ?r3 = "\<lparr>status_code = 200, body_text = ''[1]'', json_of = Some ''one''\<rparr>"
  let ?r4 = "\<lparr>status_code = 500, body_text = [], json_of = None :: string option\<rparr>"
  let ?r5 = "\<lparr>status_code = 404, body_text = [], json_of = None :: string option\<rparr>"
  have s: "str_int 503 = ''503''" "str_int 500 = ''500''"
    by code_simp+
  have 1: "get (server_of 503 ''busy'' None) ?u = Inl (ServerFailedError ''503'')"
    using transport_outcomes [of "server_of 503 ''busy'' None" ?u ?r1 "\<lambda>u b. None"] s
    by (simp add: server_of_def)
  have 2: "get (server_of 200 [] None) ?u = Inl (EmptyJsonError ?u None)"
    using transport_outcomes [of "server_of 200 [] None" ?u ?r2 "\<lambda>u b. None"]
    by (simp add: server_of_def)
  have 3: "get (server_of 200 ''[1]'' (Some ''one'')) ?u = Inr ''one''"
    using transport_outcomes [of "server_of 200 ''[1]'' (Some ''one'')" ?u ?r3 "\<lambda>u b. None"]
    by (simp add: server_of_def)
  have 4: "post (\<lambda>u b. server_of 500 [] None u) ?u ''body'' = Inl (ServerFailedError ''500'')"
    using transport_outcomes [of "\<lambda>u. None" ?u ?r4 "\<lambda>u b. server_of 500 [] None u" "''body''" ?r4] s
    by (simp add: server_of_def)
  have 5: "post (\<lambda>u b. server_of 404 [] None u) ?u ''body'' = Inl (EmptyJsonError ?u (Some ''body''))"
    using transport_outcomes [of "\<lambda>u. None" ?u ?r5 "\<lambda>u b. server_of 404 [] None u" "''body''" ?r5]
    by (simp add: server_of_def)
  have 6: "post (\<lambda>u b. server_of 200 ''[1]'' (Some ''one'') u) ?u ''body'' = Inr ''one''"
    using transport_outcomes [of "\<lambda>u. None" ?u ?r3 "\<lambda>u b. server_of 200 ''[1]'' (Some ''one'') u" "''body''" ?r3]
    by (simp add: server_of_def)
  from 1 2 3 4 5 6 show ?thesis by blast
qed

text \<open>
  The claim as stated fails for a response with status 404 and a body that is no JSON:
  neither of the two errors is raised and no value is returned.
\<close>

theorem transport_not_json_counterexample:
  "get (server_of 404 ''<html>'' None) ''http://host/a'' = Inl JSONDecodeError \<and>
   post (\<lambda>u b. server_of 404 ''<html>'' None u) ''http://host/a'' ''body'' = Inl JSONDecodeError"
  by (simp add: get_def post_def server_of_def)

section \<open>Date conversion\<close>

lemma digits_single: "n < 10 \<Longrightarrow> digits n = [digit_char n]"
  by (simp add: digits.simps [of n])

lemma digit_char_0: "n < 10 \<Longrightarrow> digit_char n = CHR ''0'' \<longleftrightarrow> n = 0"
proof -
  assume "n < 10"
  then have "n \<in> {0,1,2,3,4,5,6,7,8,9}" by auto
  then show ?thesis by (auto simp: digit_char_def)
qed

lemma digits_not_Nil: "digits n \<noteq> []"
  by (simp add: digits.simps [of n])

text \<open>\<open>digits n\<close> is the decimal numeral of \<open>n\<close>.\<close>

lemma digit_value_char: "n < 10 \<Longrightarrow> digit_value (digit_char n) = n"
proof -
  assume "n < 10"
  then have "n \<in> {0,1,2,3,4,5,6,7,8,9}" by auto
  then show ?thesis by (auto simp: digit_char_def digit_value_def)
qed

lemma digits_value: "foldl (\<lambda>a c. 10 * a + digit_value c) 0 (digits n) = n"
proof (induction n rule: digits.induct)
  case (1 n)
  show ?case
  proof (cases "n < 10")
    case True
    then show ?thesis by (simp add: digits.simps [of n] digit_value_char)
  next
    case False
    with "1.IH" have "foldl (\<lambda>a c. 10 * a + digit_value c) 0 (digits (n div 10)) = n div 10"
      by simp
    with False show ?thesis
      by (simp add: digits.simps [of n] digit_value_char)
  qed
qed

lemma digits_no_leading_zero: "0 < n \<Longrightarrow> hd (digits n) \<noteq> CHR ''0''"
proof (induction n rule: digits.induct)
  case (1 n)
  show ?case
  proof (cases "n < 10")
    case True
    with "1.prems" show ?thesis by (simp add: digits_single digit_char_0)
  next
    case False
    then have "0 < n div 10" by simp
    with False "1.IH" have "hd (digits (n div 10)) \<noteq> CHR ''0''" by simp
    with False show ?thesis
      by (simp add: digits.simps [of n] digits_not_Nil)
  qed
qed

lemma digit_char_in: "n < 10 \<Longrightarrow> digit_char n \<in> set ''0123456789''"
proof -
  assume "n < 10"
  then have "n \<in> {0,1,2,3,4,5,6,7,8,9}" by auto
  then show ?thesis by (auto simp: digit_char_def)
qed

lemma digits_chars: "set (digits n) \<subseteq> set ''0123456789''"
proof (induction n rule: digits.induct)
  case (1 n)
  show ?case
  proof (cases "n < 10")
    case True
    then show ?thesis
      using digit_char_in [of n] by (simp add: digits.simps [of n])
  next
    case False
    with "1.IH" have "set (digits (n div 10)) \<subseteq> set ''0123456789''" by simp
    moreover have "digit_char (n mod 10) \<in> set ''0123456789''"
      by (rule digit_char_in) simp
    ultimately show ?thesis
      using False by (simp add: digits.simps [of n])
  qed
qed

lemma digits_numeral:
  "set (digits n) \<subseteq> set ''0123456789'' \<and>
   foldl (\<lambda>a c. 10 * a + digit_value c) 0 (digits n) = n \<and>
   (n < 10 \<longrightarrow> digits n = [digit_char n]) \<and>
   (0 < n \<longrightarrow> hd (digits n) \<noteq> CHR ''0'')"
  using digits_chars [of n] digits_value [of n] digits_no_leading_zero [of n]
  by (simp add: digits_single)

text \<open>
  Claim C9. \<^verbatim>\<open>_convert_date\<close> returns a string argument unchanged. For every date it
  returns the decimal numerals of year, month and day joined by hyphens. The numeral of
  a number consists of decimal digits, has the number as its value, is a single digit
  for a number below 10 and does not start with the digit 0 for a positive number, so
  the string is built from the date's components and nothing is padded: the fifth of
  January 2017 gives \<^verbatim>\<open>2017-1-5\<close>.
\<close>

theorem convert_date_format:
  "convert_date (PyStr s) = PyStr s \<and>
   convert_date (Date year month day) =
     PyStr (digits year @ ''-'' @ digits month @ ''-'' @ digits day) \<and>
   (set (digits year) \<subseteq> set ''0123456789'' \<and>
    foldl (\<lambda>a c. 10 * a + digit_value c) 0 (digits year) = year \<and>
    (year < 10 \<longrightarrow> digits year = [digit_char year]) \<and>
    (0 < year \<longrightarrow> hd (digits year) \<noteq> CHR ''0'')) \<and>
   (set (digits month) \<subseteq> set ''0123456789'' \<and>
    foldl (\<lambda>a c. 10 * a + digit_value c) 0 (digits month) = month \<and>
    (month < 10 \<longrightarrow> digits month = [digit_char month]) \<and>
    (0 < month \<longrightarrow> hd (digits month) \<noteq> CHR ''0'')) \<and>
   (set (digits day) \<subseteq> set ''0123456789'' \<and>
    foldl (\<lambda>a c. 10 * a + digit_value c) 0 (digits day) = day \<and>
    (day < 10 \<longrightarrow> digits day = [digit_char day]) \<and>
    (0 < day \<longrightarrow> hd (digits day) \<noteq> CHR ''0''))"
proof -
  have "convert_date (Date year month day) =
     PyStr (digits year @ ''-'' @ digits month @ ''-'' @ digits day)"
    by (simp add: str_int_def)
  with digits_numeral [of year] digits_numeral [of month] digits_numeral [of day]
  show ?thesis by simp
qed

theorem convert_date_format_witness:
  "convert_date (PyStr ''2017-01-05'') = PyStr ''2017-01-05'' \<and>
   convert_date (Date 2017 1 5) = PyStr ''2017-1-5'' \<and>
   convert_date (Date 2017 1 5) \<noteq> PyStr ''2017-01-05'' \<and>
   convert_date (Date 1999 12 31) = PyStr ''1999-12-31''"
proof -
  have d: "digits 2017 = ''2017''" "digits 1 = ''1''" "digits 5 = ''5''"
    "digits 1999 = ''1999''" "digits 12 = ''12''" "digits 31 = ''31''"
    by code_simp+
  note t1 = convert_date_format [of "''2017-01-05''" 2017 1 5]
  note t2 = convert_date_format [of "''2017-01-05''" 1999 12 31]
  from t1 [THEN conjunct1] t1 [THEN conjunct2, THEN conjunct1] t2 [THEN conjunct2, THEN conjunct1] d
  show ?thesis
    by simp
qed

section \<open>Archives with fewer than two entries\<close>

text \<open>
  Claim C10, as amended. The claim says that a one-entry archive leaves a record with a
  data path and no metadata path. \<^verbatim>\<open>_download_data\<close> reads \<^verbatim>\<open>namelist()[0]\<close> and
  \<^verbatim>\<open>namelist()[1]\<close>. For a record whose URL ends in \<^verbatim>\<open>.zip\<close> and a download that yields
  an archive listing fewer than two names, it fails with \<^verbatim>\<open>IndexError\<close>. With no entry
  the record is as before. With one entry the failure comes after \<^verbatim>\<open>data_file\<close> was
  assigned and before \<^verbatim>\<open>meta_data\<close> is: the record is the former one with \<^verbatim>\<open>data_file\<close>
  set to the entry's path, and \<^verbatim>\<open>meta_data\<close> is what it was before the fetch. So
  \<^verbatim>\<open>add_data\<close> with such an archive fails with \<^verbatim>\<open>IndexError\<close> and leaves a record that
  has a data file path and no metadata path, while a refresh of a record that had a
  metadata path keeps that path.
\<close>


theorem short_archive_index_error:
  "(meta_data db data_name = Some r \<and> r ''dl_url'' = Some (Str dl_url) \<and>
    suffix ''.zip'' dl_url \<and>
    urlretrieve e dl_url ''RawData/temp.zip'' = Inr (Bundle entries) \<and> length entries < 2 \<longrightarrow>
      fst (download_data e data_name db) = Some IndexError \<and>
      (entries = [] \<longrightarrow> meta_data (snd (download_data e data_name db)) data_name = Some r) \<and>
      (\<forall>n c. entries = [(n, c)] \<longrightarrow>
         meta_data (snd (download_data e data_name db)) data_name
           = Some (r(''data_file'' \<mapsto> Str (''RawData/'' @ n))) \<and>
         attribute_of (snd (download_data e data_name db)) data_name ''data_file''
           = Some (Str (''RawData/'' @ n)) \<and>
         attribute_of (snd (download_data e data_name db)) data_name ''meta_data''
           = r ''meta_data'')) \<and>
   (suffix ''.zip'' dl_url \<and>
    urlretrieve e dl_url ''RawData/temp.zip'' = Inr (Bundle [(n, c)]) \<longrightarrow>
      fst (add_data e data_name dl_url db) = Some IndexError \<and>
      attribute_of (snd (add_data e data_name dl_url db)) data_name ''data_file''
        = Some (Str (''RawData/'' @ n)) \<and>
      attribute_of (snd (add_data e data_name dl_url db)) data_name ''meta_data'' = None)"
proof (rule conjI; rule impI; (elim conjE)?)
  assume a: "meta_data db data_name = Some r" "r ''dl_url'' = Some (Str dl_url)"
    "suffix ''.zip'' dl_url" "urlretrieve e dl_url ''RawData/temp.zip'' = Inr (Bundle entries)"
    "length entries < 2"
  note p = pipeline_short_archive [of r dl_url e entries "files db", OF a(2-5)]
  show "fst (download_data e data_name db) = Some IndexError \<and>
      (entries = [] \<longrightarrow> meta_data (snd (download_data e data_name db)) data_name = Some r) \<and>
      (\<forall>n c. entries = [(n, c)] \<longrightarrow>
         meta_data (snd (download_data e data_name db)) data_name
           = Some (r(''data_file'' \<mapsto> Str (''RawData/'' @ n))) \<and>
         attribute_of (snd (download_data e data_name db)) data_name ''data_file''
           = Some (Str (''RawData/'' @ n)) \<and>
         attribute_of (snd (download_data e data_name db)) data_name ''meta_data''
           = r ''meta_data'')"
    by (auto simp: download_data_known [OF a(1)] attribute_of_def p)
next
  assume b: "suffix ''.zip'' dl_url"
    "urlretrieve e dl_url ''RawData/temp.zip'' = Inr (Bundle [(n, c)])"
  have u: "[''dl_url'' \<mapsto> Str dl_url] ''dl_url'' = Some (Str dl_url)" by simp
  have l: "length [(n, c)] < 2" by simp
  note p = pipeline_short_archive [of "[''dl_url'' \<mapsto> Str dl_url]" dl_url e "[(n, c)]" "files db",
      OF u b l]
  show "fst (add_data e data_name dl_url db) = Some IndexError \<and>
      attribute_of (snd (add_data e data_name dl_url db)) data_name ''data_file''
        = Some (Str (''RawData/'' @ n)) \<and>
      attribute_of (snd (add_data e data_name dl_url db)) data_name ''meta_data'' = None"
    by (simp add: add_data_pipeline p attribute_of_def)
qed

theorem short_archive_index_error_witness:
  "fst (download_data (env_serving bundle_one) ''cpi'' db_registered) = Some IndexError \<and>
   attribute_of (snd (download_data (env_serving bundle_one) ''cpi'' db_registered)) ''cpi'' ''data_file''
     = Some (Str ''RawData/data.csv'') \<and>
   attribute_of (snd (download_data (env_serving bundle_one) ''cpi'' db_registered)) ''cpi'' ''meta_data''
     = None \<and>
   fst (add_data (env_serving bundle_one) ''cpi'' ''http://host/bundle.zip'' db_empty) = Some IndexError \<and>
   attribute_of (snd (add_data (env_serving bundle_one) ''cpi'' ''http://host/bundle.zip'' db_empty))
     ''cpi'' ''data_file'' = Some (Str ''RawData/data.csv'') \<and>
   attribute_of (snd (add_data (env_serving bundle_one) ''cpi'' ''http://host/bundle.zip'' db_empty))
     ''cpi'' ''meta_data'' = None"
proof -
  let ?r = "[''dl_url'' \<mapsto> Str ''http://host/bundle.zip'']"
  have 1: "meta_data db_registered ''cpi'' = Some ?r"
    by (simp add: db_registered_def)
  have 2: "?r ''dl_url'' = Some (Str ''http://host/bundle.zip'')"
    by simp
  have 3: "suffix ''.zip'' ''http://host/bundle.zip''"
    by (simp add: suffix_def)
  have 4: "urlretrieve (env_serving bundle_one) ''http://host/bundle.zip'' ''RawData/temp.zip''
             = Inr (Bundle [(''data.csv'', data_csv)])"
    by (simp add: env_serving_def bundle_one_def)
  have 5: "length [(''data.csv'', data_csv)] < 2"
    by simp
  have 6: "?r ''meta_data'' = None"
    by simp
  note t = short_archive_index_error [of db_registered "''cpi''" ?r "''http://host/bundle.zip''"
      "env_serving bundle_one" "[(''data.csv'', data_csv)]" "''data.csv''" data_csv]
  from t 1 2 3 4 5 6
  have a: "fst (download_data (env_serving bundle_one) ''cpi'' db_registered) = Some IndexError \<and>
   attribute_of (snd (download_data (env_serving bundle_one) ''cpi'' db_registered)) ''cpi'' ''data_file''
     = Some (Str ''RawData/data.csv'') \<and>
   attribute_of (snd (download_data (env_serving bundle_one) ''cpi'' db_registered)) ''cpi'' ''meta_data''
     = None"
    by simp
  note t' = short_archive_index_error [of db_empty "''cpi''" ?r "''http://host/bundle.zip''"
      "env_serving bundle_one" "[(''data.csv'', data_csv)]" "''data.csv''" data_csv]
  from t' 3 4
  have b: "fst (add_data (env_serving bundle_one) ''cpi'' ''http://host/bundle.zip'' db_empty) = Some IndexError \<and>
   attribute_of (snd (add_data (env_serving bundle_one) ''cpi'' ''http://host/bundle.zip'' db_empty))
     ''cpi'' ''data_file'' = Some (Str ''RawData/data.csv'') \<and>
   attribute_of (snd (add_data (env_serving bundle_one) ''cpi'' ''http://host/bundle.zip'' db_empty))
     ''cpi'' ''meta_data'' = None"
    by simp
  from a b show ?thesis by simp
qed

text \<open>
  The claim as stated fails for the refresh of a fetched record: after the failure the
  record has the new data file path and still has the metadata path of the earlier fetch.
\<close>

theorem stale_metadata_path_counterexample:
  "fst (update_data (env_serving bundle_one) ''income'' db_income) = Some IndexError \<and>
   attribute_of (snd (update_data (env_serving bundle_one) ''income'' db_income))
     ''income'' ''data_file'' = Some (Str ''RawData/data.csv'') \<and>
   attribute_of (snd (update_data (env_serving bundle_one) ''income'' db_income))
     ''income'' ''meta_data'' = Some (Str ''RawData/11100134_MetaData.csv'')"
  unfolding income_one_entry
  by (simp add: attribute_of_def db_income_def)

section \<open>Registering a URL that is no zip file\<close>

lemma dl_type_of_not_zip: "\<not> suffix ''.zip'' dl_url \<Longrightarrow> dl_type_of dl_url \<noteq> ''.zip''"
  by (simp add: dl_type_of_zip)

lemma pipeline_not_zip:
  assumes u: "r ''dl_url'' = Some (Str dl_url)" and z: "\<not> suffix ''.zip'' dl_url"
  shows "pipeline e r fs =
     (case urlretrieve e dl_url (''RawData/temp'' @ dl_type_of dl_url) of
        Inl err \<Rightarrow> (Some err, r, fs)
      | Inr f \<Rightarrow> (Some (TypeError ''Download is not a .zip file.''), r,
                  fs(''RawData/temp'' @ dl_type_of dl_url \<mapsto> f)))"
proof (cases "urlretrieve e dl_url (''RawData/temp'' @ dl_type_of dl_url)")
  case (Inl err)
  with u show ?thesis by (simp add: pipeline_def Let_def)
next
  case (Inr f)
  from z have "unzip_stage (dl_type_of dl_url) f r (fs(''RawData/temp'' @ dl_type_of dl_url \<mapsto> f))
      = (Some (TypeError ''Download is not a .zip file.''), r, fs(''RawData/temp'' @ dl_type_of dl_url \<mapsto> f))"
    by (simp add: unzip_stage_def dl_type_of_not_zip)
  with u Inr show ?thesis by (simp add: pipeline_def Let_def)
qed

text \<open>
  Claim C4, as amended. The claim says that \<^verbatim>\<open>add_data\<close> with a URL that does not end in
  \<^verbatim>\<open>.zip\<close> fails with the \<^verbatim>\<open>TypeError\<close> of line 62 (the specification's
  UnsupportedArchiveFormat). The code calls \<^verbatim>\<open>urlretrieve\<close> in line 51, before it tests the
  file type in line 53, so this holds once the download has succeeded; when the download
  raises, that exception leaves \<^verbatim>\<open>add_data\<close> instead. In both cases \<^verbatim>\<open>add_data\<close> fails, the
  record of the name holds the URL and nothing else, the other records are as before and
  nothing is pickled; after a download that succeeded the temporary file stays on disk.
\<close>

theorem add_data_not_zip:
  assumes "\<not> suffix ''.zip'' dl_url"
  shows "add_data e data_name dl_url db =
     (case urlretrieve e dl_url (''RawData/temp'' @ dl_type_of dl_url) of
        Inl err \<Rightarrow>
          (Some err,
           db\<lparr>meta_data := (meta_data db)(data_name \<mapsto> [''dl_url'' \<mapsto> Str dl_url])\<rparr>)
      | Inr f \<Rightarrow>
          (Some (TypeError ''Download is not a .zip file.''),
           db\<lparr>meta_data := (meta_data db)(data_name \<mapsto> [''dl_url'' \<mapsto> Str dl_url]),
              files := (files db)(''RawData/temp'' @ dl_type_of dl_url \<mapsto> f)\<rparr>))"
proof -
  have u: "[''dl_url'' \<mapsto> Str dl_url] ''dl_url'' = Some (Str dl_url)" by simp
  note p = pipeline_not_zip [of "[''dl_url'' \<mapsto> Str dl_url]" dl_url e "files db", OF u assms]
  show ?thesis
    by (cases "urlretrieve e dl_url (''RawData/temp'' @ dl_type_of dl_url)")
       (simp_all add: add_data_pipeline p)
qed

theorem add_data_not_zip_witness:
  "add_data (env_serving bundle_cpi) ''x'' ''http://host/file.tar'' db_empty =
     (Some (TypeError ''Download is not a .zip file.''),
      db_empty\<lparr>meta_data := (meta_data db_empty)(''x'' \<mapsto> [''dl_url'' \<mapsto> Str ''http://host/file.tar'']),
               files := (files db_empty)(''RawData/temp.tar'' \<mapsto> bundle_cpi)\<rparr>)"
proof -
  have 1: "\<not> suffix ''.zip'' ''http://host/file.tar''"
    by (simp add: suffix_def)
  have 2: "dl_type_of ''http://host/file.tar'' = ''.tar''"
    by code_simp
  from add_data_not_zip [of "''http://host/file.tar''" "env_serving bundle_cpi" "''x''" db_empty, OF 1] 2
  show ?thesis
    by (simp add: env_serving_def)
qed

text \<open>
  The claim as stated fails for a URL that cannot be retrieved: the error is the one of
  the download.
\<close>

theorem add_data_unreachable_counterexample:
  "fst (add_data env_unreachable ''x'' ''http://host/file.tar'' db_empty) = Some URLError \<and>
   fst (add_data env_unreachable ''x'' ''http://host/file.tar'' db_empty)
     \<noteq> Some (TypeError ''Download is not a .zip file.'')"
  by (simp add: add_data_pipeline pipeline_def env_unreachable_def db_empty_def)

section \<open>Artifact paths after an operation\<close>




section \<open>The file read by the metadata merge\<close>

text \<open>
  Claim C2. The claim says that the header rows are read from the metadata file that was
  just extracted for the data table, the path recorded as its \<^verbatim>\<open>meta_data\<close>. The code opens
  the fixed path of line 64 instead. Registering a table whose archive holds
  \<^verbatim>\<open>data.csv\<close> and \<^verbatim>\<open>meta.csv\<close> (header \<^verbatim>\<open>Code, Label\<close>) on a disk without the fixed file
  records \<^verbatim>\<open>RawData/meta.csv\<close>, extracts it, and then fails because the fixed file does
  not exist. On a disk where the fixed file is left from another table (header
  \<^verbatim>\<open>Survey\<close>), the same registration succeeds and the record gets \<^verbatim>\<open>Survey\<close> from that
  other file, and neither \<^verbatim>\<open>Code\<close> nor \<^verbatim>\<open>Label\<close>.
\<close>

theorem merge_reads_fixed_path:
  "fst (add_data (env_serving bundle_cpi) ''cpi'' ''http://host/bundle.zip'' db_empty)
     = Some (FileNotFoundError ''RawData/11100134_MetaData.csv'') \<and>
   attribute_of (snd (add_data (env_serving bundle_cpi) ''cpi'' ''http://host/bundle.zip'' db_empty))
     ''cpi'' ''meta_data'' = Some (Str ''RawData/meta.csv'') \<and>
   files (snd (add_data (env_serving bundle_cpi) ''cpi'' ''http://host/bundle.zip'' db_empty))
     ''RawData/meta.csv'' = Some (Text [[''Code'', ''Label''], [''001'', ''Consumer Price Index'']]) \<and>
   fst (add_data (env_serving bundle_cpi) ''cpi'' ''http://host/bundle.zip'' db_income) = None \<and>
   attribute_of (snd (add_data (env_serving bundle_cpi) ''cpi'' ''http://host/bundle.zip'' db_income))
     ''cpi'' ''meta_data'' = Some (Str ''RawData/meta.csv'') \<and>
   files (snd (add_data (env_serving bundle_cpi) ''cpi'' ''http://host/bundle.zip'' db_income))
     ''RawData/meta.csv'' = Some (Text [[''Code'', ''Label''], [''001'', ''Consumer Price Index'']]) \<and>
   attribute_of (snd (add_data (env_serving bundle_cpi) ''cpi'' ''http://host/bundle.zip'' db_income))
     ''cpi'' ''Survey'' = Some (Str ''old'') \<and>
   attribute_of (snd (add_data (env_serving bundle_cpi) ''cpi'' ''http://host/bundle.zip'' db_income))
     ''cpi'' ''Code'' = None \<and>
   attribute_of (snd (add_data (env_serving bundle_cpi) ''cpi'' ''http://host/bundle.zip'' db_income))
     ''cpi'' ''Label'' = None"
proof -
  have a: "fst (add_data (env_serving bundle_cpi) ''cpi'' ''http://host/bundle.zip'' db_empty)
     = Some (FileNotFoundError ''RawData/11100134_MetaData.csv'') \<and>
   attribute_of (snd (add_data (env_serving bundle_cpi) ''cpi'' ''http://host/bundle.zip'' db_empty))
     ''cpi'' ''meta_data'' = Some (Str ''RawData/meta.csv'') \<and>
   files (snd (add_data (env_serving bundle_cpi) ''cpi'' ''http://host/bundle.zip'' db_empty))
     ''RawData/meta.csv'' = Some (Text [[''Code'', ''Label''], [''001'', ''Consumer Price Index'']])"
    unfolding add_data_pipeline cpi_pipeline bundle_cpi_def [symmetric] cpi_header_missing
    by (simp add: attribute_of_def extractall_def)
  have b: "fst (add_data (env_serving bundle_cpi) ''cpi'' ''http://host/bundle.zip'' db_income) = None \<and>
   attribute_of (snd (add_data (env_serving bundle_cpi) ''cpi'' ''http://host/bundle.zip'' db_income))
     ''cpi'' ''meta_data'' = Some (Str ''RawData/meta.csv'') \<and>
   files (snd (add_data (env_serving bundle_cpi) ''cpi'' ''http://host/bundle.zip'' db_income))
     ''RawData/meta.csv'' = Some (Text [[''Code'', ''Label''], [''001'', ''Consumer Price Index'']]) \<and>
   attribute_of (snd (add_data (env_serving bundle_cpi) ''cpi'' ''http://host/bundle.zip'' db_income))
     ''cpi'' ''Survey'' = Some (Str ''old'') \<and>
   attribute_of (snd (add_data (env_serving bundle_cpi) ''cpi'' ''http://host/bundle.zip'' db_income))
     ''cpi'' ''Code'' = None \<and>
   attribute_of (snd (add_data (env_serving bundle_cpi) ''cpi'' ''http://host/bundle.zip'' db_income))
     ''cpi'' ''Label'' = None"
    unfolding add_data_pipeline cpi_pipeline cpi_header_other
    by (simp add: attribute_of_def extractall_def save_def env_serving_def pickle_path_def)
  from a b show ?thesis by simp
qed

section \<open>What a refresh keeps\<close>




end
